theory Spec2Isabelle
  imports Main "HOL-Library.Word"
begin

section \<open>JavaScript values used by the editor\<close>

text \<open>
  A JavaScript string is a sequence of UTF-16 code units; \<open>length\<close>, \<open>substring\<close>,
  \<open>lastIndexOf\<close> and the textarea's selection offsets all count code units.
  Identifiers, key names and messages are plain ASCII and are kept as HOL strings.
\<close>

type_synonym code_unit = "16 word"

type_synonym js_string = "code_unit list"

definition SPACE :: code_unit where
  "SPACE = 0x20"

definition NEWLINE :: code_unit where
  "NEWLINE = 0x0A"

definition ascii :: "string \<Rightarrow> js_string" where
  "ascii s = map of_char s"

text \<open>
  \<open>String.prototype.substring(a, b)\<close>: both indices are clamped to \<open>[0, length]\<close> and
  swapped when \<open>a > b\<close>; with one argument the end is the length.
\<close>

definition clamp_index :: "js_string \<Rightarrow> int \<Rightarrow> nat" where
  "clamp_index s i = nat (min (max i 0) (int (length s)))"

definition substring :: "js_string \<Rightarrow> int \<Rightarrow> int \<Rightarrow> js_string" where
  "substring s a b =
     (let x = clamp_index s a; y = clamp_index s b
      in take (max x y - min x y) (drop (min x y) s))"

definition substring_from :: "js_string \<Rightarrow> int \<Rightarrow> js_string" where
  "substring_from s a = drop (clamp_index s a) s"

text \<open>
  \<open>s.lastIndexOf(c, pos)\<close> for a one-unit search string: the greatest index
  \<open>i \<le> max pos 0\<close> with \<open>s[i] = c\<close>, or \<open>-1\<close>. Equivalently, the last occurrence of
  \<open>c\<close> in the first \<open>max pos 0 + 1\<close> units of \<open>s\<close>.
\<close>

fun lastIndexIn :: "js_string \<Rightarrow> code_unit \<Rightarrow> int" where
  "lastIndexIn [] c = - 1"
| "lastIndexIn (x # xs) c =
     (let r = lastIndexIn xs c
      in if 0 \<le> r then r + 1 else if x = c then 0 else - 1)"

definition lastIndexOf :: "js_string \<Rightarrow> code_unit \<Rightarrow> int \<Rightarrow> int" where
  "lastIndexOf s c pos = lastIndexIn (take (nat (max pos 0) + 1) s) c"

text \<open>
  \<open>trimStart\<close> drops leading white space and line terminators (ECMAScript
  \<open>WhiteSpace\<close> and \<open>LineTerminator\<close>), not only the space character.
\<close>

definition is_white_space :: "code_unit \<Rightarrow> bool" where
  "is_white_space c \<longleftrightarrow>
     c \<in> {0x09, 0x0A, 0x0B, 0x0C, 0x0D, 0x20, 0xA0, 0x1680, 0x2028, 0x2029,
          0x202F, 0x205F, 0x3000, 0xFEFF}
     \<or> (0x2000 \<le> c \<and> c \<le> 0x200A)"

definition trimStart :: "js_string \<Rightarrow> js_string" where
  "trimStart s = dropWhile is_white_space s"

definition endsWith :: "js_string \<Rightarrow> js_string \<Rightarrow> bool" where
  "endsWith s x \<longleftrightarrow> length x \<le> length s \<and> drop (length s - length x) s = x"

definition repeat :: "js_string \<Rightarrow> int \<Rightarrow> js_string" where
  "repeat s n = concat (replicate (nat n) s)"

text \<open>The remainder operator \<open>%\<close> takes the sign of the dividend.\<close>

definition js_rem :: "int \<Rightarrow> int \<Rightarrow> int" where
  "js_rem a b = sgn a * (\<bar>a\<bar> mod \<bar>b\<bar>)"

section \<open>The text block widget (TextBlock)\<close>

definition TAB_SIZE :: int where
  "TAB_SIZE = 2"

record key_event =
  key :: string
  shiftKey :: bool

record textarea =
  textarea_value :: js_string
  selectionStart :: int
  selectionEnd :: int

text \<open>
  What one call of the widget's \<open>handleKeyDown\<close> does: the content passed to
  \<open>onChange\<close> (if it is called), the caret offset assigned to both \<open>selectionStart\<close>
  and \<open>selectionEnd\<close> in the deferred callback (if one is scheduled), whether this
  handler called \<open>preventDefault\<close>, and whether it passed the event on to the
  parent's \<open>onKeyDown\<close>.
\<close>

record key_effects =
  onChange :: "js_string option"
  caret :: "int option"
  defaultPrevented :: bool
  onKeyDown :: bool

definition no_effects :: key_effects where
  "no_effects = \<lparr>onChange = None, caret = None, defaultPrevented = False, onKeyDown = False\<rparr>"

fun handleKeyDown :: "key_event \<Rightarrow> textarea option \<Rightarrow> key_effects" where
  "handleKeyDown e None = no_effects"
| "handleKeyDown e (Some textarea) =
     (let start = selectionStart textarea;
          end = selectionEnd textarea;
          content = textarea_value textarea
      in
      if key e = ''Tab'' then
        (if \<not> shiftKey e then
           (let tabSpaces = repeat [SPACE] TAB_SIZE;
                newContent = substring content 0 start @ tabSpaces @ substring_from content end
            in \<lparr>onChange = Some newContent, caret = Some (start + TAB_SIZE),
                defaultPrevented = True, onKeyDown = False\<rparr>)
         else
           (let lineStart = lastIndexOf content NEWLINE (start - 1) + 1;
                lineBeforeCursor = substring content lineStart start;
                spacesToRemove =
                  min TAB_SIZE
                    (int (length lineBeforeCursor) - int (length (trimStart lineBeforeCursor)))
            in if 0 < spacesToRemove then
                 (let newContent =
                        substring content 0 lineStart
                        @ substring_from lineBeforeCursor spacesToRemove
                        @ substring_from content start;
                      newPosition = max lineStart (start - spacesToRemove)
                  in \<lparr>onChange = Some newContent, caret = Some newPosition,
                      defaultPrevented = True, onKeyDown = False\<rparr>)
               else no_effects\<lparr>defaultPrevented := True\<rparr>))
      else
        (let lineStart = lastIndexOf content NEWLINE (start - 1) + 1;
             beforeCursor = substring content lineStart start
         in
         if key e = ''Backspace'' \<and> start = end
            \<and> TAB_SIZE \<le> int (length beforeCursor)
            \<and> endsWith beforeCursor (repeat [SPACE] TAB_SIZE)
            \<and> (start - lineStart = TAB_SIZE \<or> js_rem (start - lineStart) TAB_SIZE = 0)
         then
           (let newContent = substring content 0 (start - TAB_SIZE) @ substring_from content start
            in \<lparr>onChange = Some newContent, caret = Some (start - TAB_SIZE),
                defaultPrevented = True, onKeyDown = False\<rparr>)
         else if key e = ''Backspace'' \<and> start = end \<and> content = [] then
           no_effects\<lparr>onKeyDown := True\<rparr>
         else if (key e = ''Enter'' \<and> shiftKey e) \<or> (key e = ''/'' \<and> content = []) then
           no_effects\<lparr>onKeyDown := True\<rparr>
         else no_effects))"

text \<open>
  The textarea after the handler's effects: it is controlled by the block's content,
  so \<open>onChange\<close> replaces its value, and the deferred callback collapses the selection
  at the caret offset. Without either, value and selection stay as they were.
\<close>

definition after_key :: "textarea \<Rightarrow> key_effects \<Rightarrow> textarea" where
  "after_key t r =
     \<lparr>textarea_value = (case onChange r of None \<Rightarrow> textarea_value t | Some c \<Rightarrow> c),
      selectionStart = (case caret r of None \<Rightarrow> selectionStart t | Some p \<Rightarrow> p),
      selectionEnd = (case caret r of None \<Rightarrow> selectionEnd t | Some p \<Rightarrow> p)\<rparr>"

definition Tab :: key_event where
  "Tab = \<lparr>key = ''Tab'', shiftKey = False\<rparr>"

definition ShiftTab :: key_event where
  "ShiftTab = \<lparr>key = ''Tab'', shiftKey = True\<rparr>"

definition Backspace :: key_event where
  "Backspace = \<lparr>key = ''Backspace'', shiftKey = False\<rparr>"

definition press :: "key_event \<Rightarrow> textarea \<Rightarrow> textarea" where
  "press e t = after_key t (handleKeyDown e (Some t))"

section \<open>The block model (types.ts)\<close>

datatype BlockType = Text | Heading | Todo | Table | Image

text \<open>The content payloads of the five block interfaces.\<close>

datatype block_content =
    TextContent js_string
  | HeadingContent js_string nat
  | TodoContent js_string bool
  | TableContent "js_string list list"
  | ImageContent js_string js_string "js_string option"

record BlockData =
  block_id :: string
  block_type :: BlockType
  content :: block_content

section \<open>JavaScript arrays\<close>

text \<open>
  \<open>Array.prototype.splice(start, deleteCount, ...items)\<close>: a negative \<open>start\<close> counts
  from the end, and the start is clamped to \<open>[0, length]\<close>.
\<close>

definition splice_start :: "nat \<Rightarrow> int \<Rightarrow> nat" where
  "splice_start len start =
     (if start < 0 then nat (max (int len + start) 0) else min (nat start) len)"

definition splice :: "'a list \<Rightarrow> int \<Rightarrow> nat \<Rightarrow> 'a list \<Rightarrow> 'a list" where
  "splice xs start deleteCount items =
     (let k = splice_start (length xs) start
      in take k xs @ items @ drop (k + deleteCount) xs)"

fun findIndex :: "('a \<Rightarrow> bool) \<Rightarrow> 'a list \<Rightarrow> int" where
  "findIndex P [] = - 1"
| "findIndex P (x # xs) =
     (if P x then 0 else (let r = findIndex P xs in if r < 0 then - 1 else r + 1))"

text \<open>Reading \<open>xs[i]\<close>: \<open>None\<close> stands for \<open>undefined\<close>, the value out of range.\<close>

definition at_index :: "'a list \<Rightarrow> int \<Rightarrow> 'a option" where
  "at_index xs i = (if 0 \<le> i \<and> i < int (length xs) then Some (xs ! nat i) else None)"

section \<open>The block editor (BlockEditor)\<close>

text \<open>
  The editor's state that its handlers read to decide the block sequence and the
  focus: \<open>blocks\<close>, \<open>activeBlockId\<close> (\<open>None\<close> is \<open>null\<close>) and the menu's \<open>targetIndex\<close>.
  \<open>menuPosition\<close>, \<open>showBlockTypes\<close> and \<open>lastCaretPositionRef\<close> only drive rendering
  and are left out. Each call of \<open>uuidv4()\<close> is a parameter \<open>uuid\<close> of the handler that
  makes it.

  A handler stops with \<open>TypeError\<close> where the source reads a property of
  \<open>undefined\<close>, and with \<open>EmptySlots\<close> where an index assignment past the end of the
  array leaves empty slots, which a list of blocks does not represent; \<open>EmptySlots\<close>
  carries the state that the handler commits: the array with a \<open>None\<close> for every slot
  that holds no block, the active identifier and the menu's target.
\<close>

record editor =
  blocks :: "BlockData list"
  activeBlockId :: "string option"
  targetIndex :: int

record sparse_editor =
  slots :: "BlockData option list"
  sparse_activeBlockId :: "string option"
  sparse_targetIndex :: int

datatype stop = TypeError | EmptySlots sparse_editor

definition init_editor :: "string \<Rightarrow> BlockData list \<Rightarrow> editor" where
  "init_editor uuid initialBlocks =
     (let bs = (if 0 < length initialBlocks then initialBlocks
                else [\<lparr>block_id = uuid, block_type = Text, content = TextContent []\<rparr>])
      in \<lparr>blocks = bs,
          activeBlockId = (if 0 < length bs then Some (block_id (bs ! 0)) else None),
          targetIndex = - 1\<rparr>)"

definition updateBlock :: "BlockData \<Rightarrow> editor \<Rightarrow> editor" where
  "updateBlock updatedBlock s =
     s\<lparr>blocks := map (\<lambda>block. if block_id block = block_id updatedBlock
                                then updatedBlock else block) (blocks s)\<rparr>"

definition createBlock :: "string \<Rightarrow> BlockType \<Rightarrow> int \<Rightarrow> BlockData" where
  "createBlock uuid ty index =
     (case ty of
        Text \<Rightarrow> \<lparr>block_id = uuid, block_type = ty, content = TextContent []\<rparr>
      | Todo \<Rightarrow> \<lparr>block_id = uuid, block_type = ty, content = TodoContent [] False\<rparr>
      | _ \<Rightarrow> \<lparr>block_id = uuid, block_type = Text, content = TextContent []\<rparr>)"

definition addBlock :: "string \<Rightarrow> BlockType \<Rightarrow> int \<Rightarrow> editor \<Rightarrow> editor" where
  "addBlock uuid ty index s =
     (let newBlock = createBlock uuid ty index;
          updatedBlocks = splice (blocks s) (index + 1) 0 [newBlock]
      in s\<lparr>blocks := updatedBlocks, activeBlockId := Some (block_id newBlock)\<rparr>)"

definition deleteBlock :: "int \<Rightarrow> editor \<Rightarrow> stop + editor" where
  "deleteBlock index s =
     (if length (blocks s) = 1 then Inr s
      else
        (let updatedBlocks = splice (blocks s) index 1 []
         in if int (length updatedBlocks) \<le> index then
              (case at_index updatedBlocks (int (length updatedBlocks) - 1) of
                 None \<Rightarrow> Inl TypeError
               | Some b \<Rightarrow>
                   Inr (s\<lparr>blocks := updatedBlocks, activeBlockId := Some (block_id b)\<rparr>))
            else
              (case at_index updatedBlocks index of
                 None \<Rightarrow> Inl TypeError
               | Some b \<Rightarrow>
                   Inr (s\<lparr>blocks := updatedBlocks, activeBlockId := Some (block_id b)\<rparr>))))"

definition handleSelectBlockType :: "string \<Rightarrow> BlockType \<Rightarrow> editor \<Rightarrow> stop + editor" where
  "handleSelectBlockType uuid ty s =
     (if 0 \<le> targetIndex s then
        (let newBlock = createBlock uuid ty (targetIndex s);
             i = nat (targetIndex s)
         in if i < length (blocks s) then
              Inr (s\<lparr>blocks := (blocks s)[i := newBlock],
                     activeBlockId := Some (block_id newBlock)\<rparr>)
            else if i = length (blocks s) then
              Inr (s\<lparr>blocks := blocks s @ [newBlock],
                     activeBlockId := Some (block_id newBlock)\<rparr>)
            else
              Inl (EmptySlots
                     \<lparr>slots = map Some (blocks s) @ replicate (i - length (blocks s)) None
                              @ [Some newBlock],
                      sparse_activeBlockId = Some (block_id newBlock),
                      sparse_targetIndex = targetIndex s\<rparr>))
      else Inr s)"

text \<open>
  \<open>handleBlockKeyDown(e, blockId)\<close>; \<open>textContentEmpty\<close> is
  \<open>e.currentTarget.textContent === ''\<close>. After \<open>deleteBlock\<close> the handler focuses the
  block before the deleted one, read from the sequence as it was before the deletion.
\<close>

definition handleBlockKeyDown ::
  "string \<Rightarrow> key_event \<Rightarrow> bool \<Rightarrow> string \<Rightarrow> editor \<Rightarrow> stop + editor" where
  "handleBlockKeyDown uuid e textContentEmpty blockId s =
     (let currentIndex = findIndex (\<lambda>block. block_id block = blockId) (blocks s)
      in
      if key e = ''Enter'' \<and> shiftKey e then Inr (addBlock uuid Text currentIndex s)
      else if key e = ''Backspace'' then
        (case at_index (blocks s) currentIndex of
           None \<Rightarrow> Inl TypeError
         | Some currentBlock \<Rightarrow>
             if block_type currentBlock = Text \<and> content currentBlock = TextContent []
                \<and> 1 < length (blocks s)
             then
               (case deleteBlock currentIndex s of
                  Inl x \<Rightarrow> Inl x
                | Inr s' \<Rightarrow>
                    if 0 < currentIndex then
                      (case at_index (blocks s) (currentIndex - 1) of
                         None \<Rightarrow> Inl TypeError
                       | Some b \<Rightarrow> Inr (s'\<lparr>activeBlockId := Some (block_id b)\<rparr>))
                    else Inr s')
             else Inr s)
      else if key e = ''/'' then
        (case at_index (blocks s) currentIndex of
           None \<Rightarrow> Inl TypeError
         | Some b \<Rightarrow>
             if (block_type b = Text \<and> content b = TextContent []) \<or> textContentEmpty
             then Inr (s\<lparr>targetIndex := currentIndex\<rparr>)
             else Inr s)
      else Inr s)"

definition onFocus :: "string \<Rightarrow> editor \<Rightarrow> editor" where
  "onFocus blockId s = s\<lparr>activeBlockId := Some blockId\<rparr>"

definition onClose :: "editor \<Rightarrow> editor" where
  "onClose s = s\<lparr>targetIndex := - 1\<rparr>"

text \<open>
  The calls that reach the editor's state, one constructor per handler, and the run
  of a sequence of them; a handler that stops ends the run.
\<close>

datatype editor_op =
    UpdateBlock BlockData
  | AddBlock string BlockType int
  | DeleteBlock int
  | SelectBlockType string BlockType
  | BlockKeyDown string key_event bool string
  | Focus string
  | CloseMenu

fun step :: "editor_op \<Rightarrow> editor \<Rightarrow> stop + editor" where
  "step (UpdateBlock b) s = Inr (updateBlock b s)"
| "step (AddBlock uuid ty index) s = Inr (addBlock uuid ty index s)"
| "step (DeleteBlock index) s = deleteBlock index s"
| "step (SelectBlockType uuid ty) s = handleSelectBlockType uuid ty s"
| "step (BlockKeyDown uuid e textContentEmpty blockId) s =
     handleBlockKeyDown uuid e textContentEmpty blockId s"
| "step (Focus blockId) s = Inr (onFocus blockId s)"
| "step CloseMenu s = Inr (onClose s)"

fun run :: "editor_op list \<Rightarrow> editor \<Rightarrow> stop + editor" where
  "run [] s = Inr s"
| "run (x # xs) s = (case step x s of Inl e \<Rightarrow> Inl e | Inr s' \<Rightarrow> run xs s')"

definition ids :: "editor \<Rightarrow> string list" where
  "ids s = map block_id (blocks s)"

text \<open>
  The handlers that the user can still reach on an array with empty slots. An empty
  slot reads as \<open>undefined\<close>: the callback of \<open>findIndex\<close> throws on it, and so does
  reading its \<open>id\<close>. \<open>onDelete\<close> is the delete button of a rendered block: it looks
  the block's index up and calls \<open>deleteBlock\<close>, which has passed \<open>updatedBlocks\<close> to
  \<open>setBlocks\<close> and not yet called \<open>setActiveBlockId\<close> when it reads the \<open>id\<close>. The
  flag in the result says whether the handler threw.
\<close>

fun findIndex_slots :: "string \<Rightarrow> BlockData option list \<Rightarrow> int option" where
  "findIndex_slots blockId [] = Some (- 1)"
| "findIndex_slots blockId (None # xs) = None"
| "findIndex_slots blockId (Some b # xs) =
     (if block_id b = blockId then Some 0
      else (case findIndex_slots blockId xs of
              None \<Rightarrow> None
            | Some r \<Rightarrow> Some (if r < 0 then - 1 else r + 1)))"

definition deleteBlock_sparse :: "int \<Rightarrow> sparse_editor \<Rightarrow> sparse_editor \<times> bool" where
  "deleteBlock_sparse index s =
     (if length (slots s) = 1 then (s, False)
      else
        (let updatedBlocks = splice (slots s) index 1 [];
             k = (if int (length updatedBlocks) \<le> index then int (length updatedBlocks) - 1
                  else index)
         in case at_index updatedBlocks k of
              Some (Some b) \<Rightarrow>
                (s\<lparr>slots := updatedBlocks, sparse_activeBlockId := Some (block_id b)\<rparr>, False)
            | _ \<Rightarrow> (s\<lparr>slots := updatedBlocks\<rparr>, True)))"

definition onDelete_sparse :: "string \<Rightarrow> sparse_editor \<Rightarrow> sparse_editor \<times> bool" where
  "onDelete_sparse blockId s =
     (case findIndex_slots blockId (slots s) of
        None \<Rightarrow> (s, True)
      | Some index \<Rightarrow> deleteBlock_sparse index s)"

definition onFocus_sparse :: "string \<Rightarrow> sparse_editor \<Rightarrow> sparse_editor" where
  "onFocus_sparse blockId s = s\<lparr>sparse_activeBlockId := Some blockId\<rparr>"

definition slot_ids :: "sparse_editor \<Rightarrow> string list" where
  "slot_ids s = map block_id (List.map_filter (\<lambda>x. x) (slots s))"

definition ids_distinct :: "editor \<Rightarrow> bool" where
  "ids_distinct s = distinct (ids s)"

definition active_ok :: "editor \<Rightarrow> bool" where
  "active_ok s = (case activeBlockId s of None \<Rightarrow> True | Some a \<Rightarrow> a \<in> set (ids s))"

section \<open>The note page (NotePage) and the dashboard (Home)\<close>

text \<open>
  A note's \<open>content\<close> is declared \<open>BlockData[] | string\<close>. What the server returns
  may also be missing or of another shape; the page tests \<open>typeof ... === 'string'\<close>
  and \<open>Array.isArray\<close>. Dates are milliseconds since the epoch.
\<close>

datatype note_content = ContentString js_string | ContentBlocks "BlockData list"

datatype stored_content = StoredString js_string | StoredArray "BlockData list" | StoredOther

record 'c Note =
  note_id :: "string option"
  title :: js_string
  note_content :: 'c
  updatedAt :: "int option"
  createdAt :: "int option"

record write_request =
  req_method :: string
  req_url :: string
  req_body :: "note_content Note"

definition is_block_array :: "note_content \<Rightarrow> bool" where
  "is_block_array c = (case c of ContentBlocks bs \<Rightarrow> True | ContentString str \<Rightarrow> False)"

text \<open>The conversion in \<open>fetchNote\<close>; \<open>uuid\<close> is the identifier drawn for a new block.\<close>

definition convert_content :: "string \<Rightarrow> stored_content \<Rightarrow> note_content" where
  "convert_content uuid noteContent =
     (case noteContent of
        StoredString str \<Rightarrow>
          ContentBlocks
            (if str \<noteq> [] then [\<lparr>block_id = uuid, block_type = Text, content = TextContent str\<rparr>]
             else [\<lparr>block_id = uuid, block_type = Text, content = TextContent []\<rparr>])
      | StoredArray bs \<Rightarrow> ContentBlocks bs
      | StoredOther \<Rightarrow>
          ContentBlocks [\<lparr>block_id = uuid, block_type = Text, content = TextContent []\<rparr>])"

text \<open>
  The page's state: the \<open>note\<close> (here \<open>page_note\<close>), the note captured by the pending save timer
  (\<open>saveTimeoutRef\<close>), and the requests sent so far.
\<close>

record page =
  page_note :: "note_content Note"
  saveTimeout :: "note_content Note option"
  sent :: "write_request list"

definition init_page :: page where
  "init_page =
     \<lparr>page_note = \<lparr>note_id = None, title = [], note_content = ContentBlocks [],
               updatedAt = None, createdAt = None\<rparr>,
      saveTimeout = None, sent = []\<rparr>"

definition saveNote :: "string \<Rightarrow> int \<Rightarrow> note_content Note \<Rightarrow> write_request" where
  "saveNote noteId now updatedNote =
     \<lparr>req_method = ''PUT'', req_url = ''/api/notes'',
      req_body = updatedNote\<lparr>note_id := Some noteId, updatedAt := Some now\<rparr>\<rparr>"

definition debouncedSave :: "note_content Note \<Rightarrow> page \<Rightarrow> page" where
  "debouncedSave updatedNote p = p\<lparr>saveTimeout := Some updatedNote\<rparr>"

datatype page_event =
    NoteFetched string "stored_content Note"
  | BlocksChange "BlockData list"
  | TitleChange js_string
  | TitleSave
  | TimeoutFires int

fun page_step :: "string \<Rightarrow> page_event \<Rightarrow> page \<Rightarrow> page" where
  "page_step noteId (NoteFetched uuid d) p =
     p\<lparr>page_note := \<lparr>note_id = note_id d, title = title d,
                 note_content = convert_content uuid (note_content d),
                 updatedAt = updatedAt d, createdAt = createdAt d\<rparr>\<rparr>"
| "page_step noteId (BlocksChange bs) p =
     (let updatedNote = (page_note p)\<lparr>note_content := ContentBlocks bs\<rparr>
      in debouncedSave updatedNote (p\<lparr>page_note := updatedNote\<rparr>))"
| "page_step noteId (TitleChange t) p = p\<lparr>page_note := (page_note p)\<lparr>title := t\<rparr>\<rparr>"
| "page_step noteId TitleSave p = debouncedSave (page_note p) p"
| "page_step noteId (TimeoutFires now) p =
     (case saveTimeout p of
        None \<Rightarrow> p
      | Some updatedNote \<Rightarrow>
          p\<lparr>saveTimeout := None, sent := sent p @ [saveNote noteId now updatedNote]\<rparr>)"

fun page_run :: "string \<Rightarrow> page_event list \<Rightarrow> page \<Rightarrow> page" where
  "page_run noteId [] p = p"
| "page_run noteId (ev # evs) p = page_run noteId evs (page_step noteId ev p)"

text \<open>The dashboard's \<open>createNewNote\<close>; the two arguments are its two \<open>new Date()\<close>.\<close>

definition createNewNote :: "int \<Rightarrow> int \<Rightarrow> write_request" where
  "createNewNote now1 now2 =
     \<lparr>req_method = ''POST'', req_url = ''/api/notes'',
      req_body = \<lparr>note_id = None, title = ascii ''Untitled Note'',
                  note_content = ContentString [],
                  updatedAt = Some now2, createdAt = Some now1\<rparr>\<rparr>"

definition page_inv :: "page \<Rightarrow> bool" where
  "page_inv p \<longleftrightarrow>
     is_block_array (note_content (page_note p))
     \<and> (case saveTimeout p of None \<Rightarrow> True | Some n \<Rightarrow> is_block_array (note_content n))
     \<and> list_all (\<lambda>r. req_method r = ''PUT'' \<and> is_block_array (note_content (req_body r)))
          (sent p)"

section \<open>The notes API (route handlers)\<close>

text \<open>
  Request bodies are JSON values; numbers are the integers, which is all the
  handlers' truthiness test needs. An object holds its properties as parsed, one
  entry per name.
\<close>

datatype json =
    JNull
  | JBool bool
  | JNumber int
  | JString string
  | JArray "json list"
  | JObject "(string \<times> json) list"

fun truthy :: "json \<Rightarrow> bool" where
  "truthy JNull = False"
| "truthy (JBool b) = b"
| "truthy (JNumber n) = (n \<noteq> 0)"
| "truthy (JString str) = (str \<noteq> [])"
| "truthy (JArray xs) = True"
| "truthy (JObject fs) = True"

text \<open>
  The \<open>notes\<close> collection maps an \<open>ObjectId\<close> to the other top-level fields of its
  document. The driver's \<open>ObjectId.isValid\<close> and \<open>new ObjectId(...)\<close> are parameters;
  the constructor gives \<open>None\<close> where it throws. \<open>storage_up\<close> is false when the
  connection or the storage operation fails, which the handlers catch.

  \<open>updateOne(filter, {$set: updateData})\<close> is \<open>updateOne_set\<close>, applied to the document
  that the filter matches, if any. When \<open>updateData\<close> is not empty and all its names are
  top-level names (not empty, no \<open>.\<close>, no leading \<open>$\<close>), a matched document gets each
  field of \<open>updateData\<close> assigned and keeps every other field. For any other
  \<open>updateData\<close> (a dotted name is a path into an embedded document, and what is
  accepted depends on the server) the result is the parameter \<open>other\<close>. The call
  throws (\<open>Rejected\<close>), matches nothing (\<open>Unmatched\<close>) or leaves the document as
  \<open>Modified\<close> says.
\<close>

type_synonym document = "string \<rightharpoonup> json"

type_synonym 'oid collection = "'oid \<rightharpoonup> document"

record 'oid driver =
  isValid :: "string \<Rightarrow> bool"
  newObjectId :: "json \<Rightarrow> 'oid option"

datatype 'oid payload = Error string | Success | NoteFound 'oid document

record 'oid response =
  status :: nat
  payload :: "'oid payload"

datatype 'oid db_call = Connect | FindOne 'oid

datatype update_outcome = Rejected | Unmatched | Modified document

definition top_level_name :: "string \<Rightarrow> bool" where
  "top_level_name k \<longleftrightarrow> k \<noteq> [] \<and> CHR ''.'' \<notin> set k \<and> hd k \<noteq> CHR ''$''"

definition updateOne_set ::
  "(document option \<Rightarrow> (string \<times> json) list \<Rightarrow> update_outcome)
     \<Rightarrow> document option \<Rightarrow> (string \<times> json) list \<Rightarrow> update_outcome" where
  "updateOne_set other matched updateData =
     (if updateData \<noteq> [] \<and> list_all (\<lambda>(k, v). top_level_name k) updateData then
        (case matched of
           None \<Rightarrow> Unmatched
         | Some doc \<Rightarrow> Modified (doc ++ map_of updateData))
      else other matched updateData)"

definition PUT ::
  "'oid driver \<Rightarrow> (document option \<Rightarrow> (string \<times> json) list \<Rightarrow> update_outcome)
     \<Rightarrow> bool \<Rightarrow> 'oid collection \<Rightarrow> json option
     \<Rightarrow> 'oid response \<times> 'oid collection" where
  "PUT drv other storage_up notes body =
     (case body of
        None \<Rightarrow> (\<lparr>status = 500, payload = Error ''Failed to update note''\<rparr>, notes)
      | Some JNull \<Rightarrow> (\<lparr>status = 500, payload = Error ''Failed to update note''\<rparr>, notes)
      | Some b \<Rightarrow>
          (let props = (case b of JObject fs \<Rightarrow> fs | _ \<Rightarrow> []);
               id_field = map_of props ''_id'';
               updateData = filter (\<lambda>(k, v). k \<noteq> ''_id'') props
           in case id_field of
                None \<Rightarrow> (\<lparr>status = 400, payload = Error ''Note ID is required''\<rparr>, notes)
              | Some i \<Rightarrow>
                  if \<not> truthy i then
                    (\<lparr>status = 400, payload = Error ''Note ID is required''\<rparr>, notes)
                  else if \<not> storage_up then
                    (\<lparr>status = 500, payload = Error ''Failed to update note''\<rparr>, notes)
                  else
                    (case newObjectId drv i of
                       None \<Rightarrow>
                         (\<lparr>status = 500, payload = Error ''Failed to update note''\<rparr>, notes)
                     | Some oid \<Rightarrow>
                         (case updateOne_set other (notes oid) updateData of
                            Rejected \<Rightarrow>
                              (\<lparr>status = 500, payload = Error ''Failed to update note''\<rparr>,
                               notes)
                          | Unmatched \<Rightarrow>
                              (\<lparr>status = 404, payload = Error ''Note not found''\<rparr>, notes)
                          | Modified doc' \<Rightarrow>
                              (\<lparr>status = 200, payload = Success\<rparr>,
                               notes(oid \<mapsto> doc'))))))"

text \<open>\<open>GET /api/notes/{id}\<close>, with the storage calls it makes, in order.\<close>

definition GET_note ::
  "'oid driver \<Rightarrow> bool \<Rightarrow> 'oid collection \<Rightarrow> string
     \<Rightarrow> 'oid response \<times> 'oid db_call list" where
  "GET_note drv storage_up notes id_param =
     (if id_param = [] \<or> \<not> isValid drv id_param then
        (\<lparr>status = 400, payload = Error ''Invalid note ID''\<rparr>, [])
      else if \<not> storage_up then
        (\<lparr>status = 500, payload = Error ''Failed to fetch note''\<rparr>, [Connect])
      else
        (case newObjectId drv (JString id_param) of
           None \<Rightarrow> (\<lparr>status = 500, payload = Error ''Failed to fetch note''\<rparr>, [Connect])
         | Some oid \<Rightarrow>
             (case notes oid of
                None \<Rightarrow>
                  (\<lparr>status = 404, payload = Error ''Note not found''\<rparr>, [Connect, FindOne oid])
              | Some doc \<Rightarrow>
                  (\<lparr>status = 200, payload = NoteFound oid doc\<rparr>, [Connect, FindOne oid]))))"

definition stored_field :: "'oid collection \<Rightarrow> 'oid \<Rightarrow> string \<Rightarrow> json option" where
  "stored_field notes oid f = (case notes oid of None \<Rightarrow> None | Some doc \<Rightarrow> doc f)"

text \<open>
  A driver for examples: identifiers are strings of 24 hexadecimal digits, kept as
  they are written; and a server for examples that rejects every update outside
  the top-level case.
\<close>

definition rejects_other :: "document option \<Rightarrow> (string \<times> json) list \<Rightarrow> update_outcome" where
  "rejects_other matched updateData = Rejected"

definition is_hex :: "char \<Rightarrow> bool" where
  "is_hex c \<longleftrightarrow> c \<in> set ''0123456789abcdefABCDEF''"

definition hex_driver :: "string driver" where
  "hex_driver =
     \<lparr>isValid = (\<lambda>str. length str = 24 \<and> list_all is_hex str),
      newObjectId = (\<lambda>j. case j of
                            JString str \<Rightarrow>
                              if length str = 24 \<and> list_all is_hex str then Some str else None
                          | _ \<Rightarrow> None)\<rparr>"

section \<open>Strings: line starts and substrings\<close>

lemma lastIndexIn_nonneg_iff: "0 \<le> lastIndexIn xs c \<longleftrightarrow> c \<in> set xs"
  by (induction xs) (auto simp: Let_def)

lemma lastIndexIn_notin: "c \<notin> set xs \<Longrightarrow> lastIndexIn xs c = - 1"
  by (induction xs) (auto simp: Let_def)

lemma lastIndexIn_append:
  "lastIndexIn (xs @ ys) c =
     (if c \<in> set ys then int (length xs) + lastIndexIn ys c else lastIndexIn xs c)"
  by (induction xs) (auto simp: Let_def lastIndexIn_nonneg_iff lastIndexIn_notin)

lemma lastIndexIn_snoc: "lastIndexIn (xs @ [c]) c = int (length xs)"
  by (simp add: lastIndexIn_append)

lemma line_start_after:
  assumes nl: "NEWLINE \<notin> set mid"
    and pre: "pre = [] \<or> last pre = NEWLINE"
    and pos: "0 < length pre + length mid"
  shows "lastIndexOf (pre @ mid @ post) NEWLINE (int (length pre + length mid) - 1) + 1
         = int (length pre)"
proof -
  have n: "nat (max (int (length pre + length mid) - 1) 0) + 1 = length pre + length mid"
    using pos by linarith
  have t: "take (length pre + length mid) (pre @ mid @ post) = pre @ mid"
    by simp
  have "lastIndexIn (pre @ mid) NEWLINE = int (length pre) - 1"
  proof (cases pre rule: rev_cases)
    case Nil
    then show ?thesis using nl by (simp add: lastIndexIn_notin)
  next
    case (snoc ys y)
    then have "y = NEWLINE" using pre by simp
    then show ?thesis using nl snoc by (simp add: lastIndexIn_append lastIndexIn_notin Let_def)
  qed
  then show ?thesis unfolding lastIndexOf_def n t by simp
qed

lemma substring_prefix: "substring (pre @ rest) 0 (int (length pre)) = pre"
  by (simp add: substring_def clamp_index_def Let_def)

lemma substring_middle:
  "substring (pre @ mid @ post) (int (length pre)) (int (length pre + length mid)) = mid"
  by (simp add: substring_def clamp_index_def Let_def)

lemma substring_from_suffix:
  "substring_from (pre @ post) (int (length pre)) = post"
  by (simp add: substring_from_def clamp_index_def)

lemma space_not_newline: "NEWLINE \<notin> set (replicate n SPACE)"
  by (simp add: SPACE_def NEWLINE_def)

lemma tab_spaces: "repeat [SPACE] TAB_SIZE = [SPACE, SPACE]"
  by (simp add: repeat_def TAB_SIZE_def numeral_2_eq_2)

lemma endsWith_spaces:
  assumes "2 \<le> n"
  shows "endsWith (replicate n SPACE) [SPACE, SPACE]"
proof -
  obtain m where n: "n = m + 2" using assms by (metis le_add_diff_inverse2)
  have "replicate (m + 2) SPACE = replicate m SPACE @ [SPACE, SPACE]"
    by (simp only: replicate_add) (simp add: numeral_2_eq_2)
  then show ?thesis unfolding n by (simp add: endsWith_def)
qed

lemma js_rem_even: "even n \<Longrightarrow> js_rem (int n) 2 = 0"
  by (simp add: js_rem_def)

section \<open>Properties of the text block widget\<close>

text \<open>
  Claim C3, as stated, fails. In content \<open>"    x"\<close> (four spaces, then \<open>x\<close>) with a
  collapsed cursor at offset 4, one Backspace does not leave \<open>"x"\<close> with the cursor at
  offset 0.
\<close>

theorem backspace_four_spaces_counterexample:
  "press Backspace
     \<lparr>textarea_value = ascii ''    x'', selectionStart = 4, selectionEnd = 4\<rparr>
   \<noteq> \<lparr>textarea_value = ascii ''x'', selectionStart = 0, selectionEnd = 0\<rparr>"
  by code_simp

text \<open>
  Claim C3, amended. In content \<open>"    x"\<close> with a collapsed cursor at offset 4, one
  Backspace deletes one indent width (2) of the 4 spaces: the handler prevents the
  default, reports the content \<open>"  x"\<close> and puts the cursor at offset 2. A second
  Backspace deletes the remaining two spaces and leaves \<open>"x"\<close> with the cursor at
  offset 0.
\<close>

theorem backspace_four_spaces_one_indent:
  "handleKeyDown Backspace
     (Some \<lparr>textarea_value = ascii ''    x'', selectionStart = 4, selectionEnd = 4\<rparr>)
   = \<lparr>onChange = Some (ascii ''  x''), caret = Some 2,
      defaultPrevented = True, onKeyDown = False\<rparr>
   \<and> press Backspace
       \<lparr>textarea_value = ascii ''    x'', selectionStart = 4, selectionEnd = 4\<rparr>
     = \<lparr>textarea_value = ascii ''  x'', selectionStart = 2, selectionEnd = 2\<rparr>
   \<and> press Backspace
       (press Backspace
          \<lparr>textarea_value = ascii ''    x'', selectionStart = 4, selectionEnd = 4\<rparr>)
     = \<lparr>textarea_value = ascii ''x'', selectionStart = 0, selectionEnd = 0\<rparr>"
  by code_simp

text \<open>
  Claim C4. The content is \<open>pre\<close>, then \<open>n\<close> spaces, then \<open>post\<close>, where \<open>pre\<close> is empty
  or ends with a newline (so the run of spaces starts at the start of the current
  line), \<open>n\<close> is at least the indent width 2 and a multiple of it, and the collapsed
  cursor is right after the run. Then Backspace prevents the default single-character
  deletion, reports the content with exactly two of the spaces removed, and moves the
  cursor back by exactly 2.
\<close>

theorem backspace_deletes_one_indent:
  assumes k: "key e = ''Backspace''"
    and pre: "pre = [] \<or> last pre = NEWLINE"
    and n2: "2 \<le> n" and ev: "even n"
  shows "handleKeyDown e
           (Some \<lparr>textarea_value = pre @ replicate n SPACE @ post,
                  selectionStart = int (length pre + n),
                  selectionEnd = int (length pre + n)\<rparr>)
         = \<lparr>onChange = Some (pre @ replicate (n - 2) SPACE @ post),
            caret = Some (int (length pre + n) - 2),
            defaultPrevented = True, onKeyDown = False\<rparr>"
proof -
  let ?content = "pre @ replicate n SPACE @ post"
  let ?start = "int (length pre + n)"
  have ls: "lastIndexOf ?content NEWLINE (?start - 1) + 1 = int (length pre)"
  proof -
    have "0 < length pre + length (replicate n SPACE)" using n2 by simp
    from line_start_after [OF space_not_newline pre this, of post]
    show ?thesis by simp
  qed
  have bc: "substring ?content (int (length pre)) ?start = replicate n SPACE"
    using substring_middle [of pre "replicate n SPACE" post] by simp
  have ew: "endsWith (replicate n SPACE) (repeat [SPACE] TAB_SIZE)"
    using endsWith_spaces [OF n2] by (simp add: tab_spaces)
  have rm: "js_rem (?start - int (length pre)) TAB_SIZE = 0"
    using js_rem_even [OF ev] by (simp add: TAB_SIZE_def)
  obtain m where n: "n = m + 2" using n2 by (metis le_add_diff_inverse2)
  have split: "?content = (pre @ replicate (n - 2) SPACE) @ ([SPACE, SPACE] @ post)"
    unfolding n by (simp only: replicate_add) (simp add: numeral_2_eq_2)
  have len: "?start - TAB_SIZE = int (length (pre @ replicate (n - 2) SPACE))"
    using n2 by (simp add: TAB_SIZE_def)
  have hd: "substring ?content 0 (?start - TAB_SIZE) = pre @ replicate (n - 2) SPACE"
    unfolding len by (subst split) (rule substring_prefix)
  have tl: "substring_from ?content ?start = post"
    using substring_from_suffix [of "pre @ replicate n SPACE" post] by simp
  have kt: "key e \<noteq> ''Tab''" using k by simp
  have tsz: "TAB_SIZE \<le> int n" using n2 by (simp add: TAB_SIZE_def)
  show ?thesis
    unfolding handleKeyDown.simps Let_def
    by (simp only: textarea.simps ls bc ew rm hd tl k kt tsz length_replicate) (simp add: TAB_SIZE_def)
qed

theorem backspace_deletes_one_indent_witness:
  "key Backspace = ''Backspace'' \<and> last (ascii ''a'' @ [NEWLINE]) = NEWLINE
   \<and> (2::nat) \<le> 4 \<and> even (4::nat)
   \<and> handleKeyDown Backspace
        (Some \<lparr>textarea_value = (ascii ''a'' @ [NEWLINE]) @ replicate 4 SPACE @ ascii ''b'',
               selectionStart = 6, selectionEnd = 6\<rparr>)
      = \<lparr>onChange = Some ((ascii ''a'' @ [NEWLINE]) @ replicate 2 SPACE @ ascii ''b''),
         caret = Some 4, defaultPrevented = True, onKeyDown = False\<rparr>"
  using backspace_deletes_one_indent
          [of Backspace "ascii ''a'' @ [NEWLINE]" 4 "ascii ''b''"]
  by (simp add: Backspace_def ascii_def)

text \<open>
  Claim C5. On empty content with the cursor at offset 0, Tab gives exactly two
  spaces with the cursor at offset 2; Shift+Tab on that state removes exactly those
  two spaces and gives back the empty content with the cursor at offset 0.
\<close>

theorem tab_shift_tab_round_trip:
  "press Tab \<lparr>textarea_value = [], selectionStart = 0, selectionEnd = 0\<rparr>
     = \<lparr>textarea_value = [SPACE, SPACE], selectionStart = 2, selectionEnd = 2\<rparr>
   \<and> press ShiftTab \<lparr>textarea_value = [SPACE, SPACE], selectionStart = 2, selectionEnd = 2\<rparr>
     = \<lparr>textarea_value = [], selectionStart = 0, selectionEnd = 0\<rparr>
   \<and> press ShiftTab
       (press Tab \<lparr>textarea_value = [], selectionStart = 0, selectionEnd = 0\<rparr>)
     = \<lparr>textarea_value = [], selectionStart = 0, selectionEnd = 0\<rparr>"
  by code_simp

text \<open>
  Claim C6. The content is a newline followed by \<open>abc\<close>, with the cursor at offset 0.
  The portion of the current line from its start to the cursor is empty, so it does
  not begin with a run of spaces, and the claim asks for a no-op. The handler
  searches the last newline from \<open>start - 1\<close>, here \<open>-1\<close>, which \<open>lastIndexOf\<close> clamps to
  \<open>0\<close>: it finds the newline at index 0; the line start becomes 1, \<open>substring(1, 0)\<close> swaps
  its arguments and yields the newline, which \<open>trimStart\<close> counts as one leading
  white-space character. The handler then reports the content with a second
  newline in front and puts the cursor at offset 1.
\<close>

theorem shift_tab_at_origin_inserts_newline:
  "lastIndexOf (NEWLINE # ascii ''abc'') NEWLINE (0 - 1) + 1 = 1
   \<and> substring (NEWLINE # ascii ''abc'') 1 0 = [NEWLINE]
   \<and> trimStart [NEWLINE] = []
   \<and> handleKeyDown ShiftTab
        (Some \<lparr>textarea_value = NEWLINE # ascii ''abc'', selectionStart = 0, selectionEnd = 0\<rparr>)
      = \<lparr>onChange = Some (NEWLINE # NEWLINE # ascii ''abc''), caret = Some 1,
         defaultPrevented = True, onKeyDown = False\<rparr>
   \<and> press ShiftTab
        \<lparr>textarea_value = NEWLINE # ascii ''abc'', selectionStart = 0, selectionEnd = 0\<rparr>
      = \<lparr>textarea_value = NEWLINE # NEWLINE # ascii ''abc'', selectionStart = 1,
         selectionEnd = 1\<rparr>"
  by code_simp

section \<open>Properties of the block editor\<close>

lemma at_index_Some: "0 \<le> i \<Longrightarrow> i < int (length xs) \<Longrightarrow> at_index xs i = Some (xs ! nat i)"
  by (simp add: at_index_def)

lemma findIndex_found:
  assumes "\<exists>x \<in> set xs. P x"
  shows "0 \<le> findIndex P xs \<and> findIndex P xs < int (length xs) \<and> P (xs ! nat (findIndex P xs))"
  using assms
proof (induction xs)
  case Nil
  then show ?case by simp
next
  case (Cons x xs)
  show ?case
  proof (cases "P x")
    case True
    then show ?thesis by simp
  next
    case False
    with Cons.prems have "\<exists>x \<in> set xs. P x" by simp
    from Cons.IH [OF this] False show ?thesis
      by (simp add: Let_def nat_add_distrib)
  qed
qed

lemma ids_member: "blockId \<in> set (ids s) \<longleftrightarrow> (\<exists>x \<in> set (blocks s). block_id x = blockId)"
  by (auto simp: ids_def)

text \<open>
  Claim C1. The editor holds three empty text blocks \<open>a\<close>, \<open>b\<close>, \<open>c\<close> with distinct
  identifiers, \<open>c\<close> active. The user types \<open>/\<close> in \<open>c\<close>, which opens the menu with
  target 2; goes back to \<open>c\<close> with the keyboard and presses Backspace, which deletes
  \<open>c\<close>; presses Backspace in \<open>b\<close>, which deletes \<open>b\<close>. The sequence is now \<open>[a]\<close>, and the
  target is still 2: no deletion resets it. Choosing a type in the menu then writes
  the new block \<open>n\<close> at index 2 of a one-element array: the handler commits
  \<open>[a, <empty>, n]\<close>, a sequence with a slot that holds no block. When the user then
  focuses \<open>a\<close> and presses its delete button, \<open>deleteBlock\<close> commits \<open>[<empty>, n]\<close> and
  throws before it sets the active identifier: the active identifier is \<open>a\<close>, the
  identifier of no block of the sequence.
\<close>

theorem stale_menu_target_breaks_active_block:
  "ids_distinct
     \<lparr>blocks = [\<lparr>block_id = ''a'', block_type = Text, content = TextContent []\<rparr>,
                \<lparr>block_id = ''b'', block_type = Text, content = TextContent []\<rparr>,
                \<lparr>block_id = ''c'', block_type = Text, content = TextContent []\<rparr>],
      activeBlockId = Some ''c'', targetIndex = - 1\<rparr>
   \<and> active_ok
       \<lparr>blocks = [\<lparr>block_id = ''a'', block_type = Text, content = TextContent []\<rparr>,
                  \<lparr>block_id = ''b'', block_type = Text, content = TextContent []\<rparr>,
                  \<lparr>block_id = ''c'', block_type = Text, content = TextContent []\<rparr>],
        activeBlockId = Some ''c'', targetIndex = - 1\<rparr>
   \<and> run [BlockKeyDown ''u'' \<lparr>key = ''/'', shiftKey = False\<rparr> True ''c'',
           BlockKeyDown ''u'' Backspace True ''c'',
           BlockKeyDown ''u'' Backspace True ''b'']
       \<lparr>blocks = [\<lparr>block_id = ''a'', block_type = Text, content = TextContent []\<rparr>,
                  \<lparr>block_id = ''b'', block_type = Text, content = TextContent []\<rparr>,
                  \<lparr>block_id = ''c'', block_type = Text, content = TextContent []\<rparr>],
        activeBlockId = Some ''c'', targetIndex = - 1\<rparr>
     = Inr \<lparr>blocks = [\<lparr>block_id = ''a'', block_type = Text, content = TextContent []\<rparr>],
            activeBlockId = Some ''a'', targetIndex = 2\<rparr>
   \<and> run [BlockKeyDown ''u'' \<lparr>key = ''/'', shiftKey = False\<rparr> True ''c'',
           BlockKeyDown ''u'' Backspace True ''c'',
           BlockKeyDown ''u'' Backspace True ''b'',
           SelectBlockType ''n'' Todo]
       \<lparr>blocks = [\<lparr>block_id = ''a'', block_type = Text, content = TextContent []\<rparr>,
                  \<lparr>block_id = ''b'', block_type = Text, content = TextContent []\<rparr>,
                  \<lparr>block_id = ''c'', block_type = Text, content = TextContent []\<rparr>],
        activeBlockId = Some ''c'', targetIndex = - 1\<rparr>
     = Inl (EmptySlots
              \<lparr>slots = [Some \<lparr>block_id = ''a'', block_type = Text, content = TextContent []\<rparr>,
                        None,
                        Some \<lparr>block_id = ''n'', block_type = Todo,
                              content = TodoContent [] False\<rparr>],
               sparse_activeBlockId = Some ''n'', sparse_targetIndex = 2\<rparr>)
   \<and> onDelete_sparse ''a''
       (onFocus_sparse ''a''
          \<lparr>slots = [Some \<lparr>block_id = ''a'', block_type = Text, content = TextContent []\<rparr>,
                    None,
                    Some \<lparr>block_id = ''n'', block_type = Todo,
                          content = TodoContent [] False\<rparr>],
           sparse_activeBlockId = Some ''n'', sparse_targetIndex = 2\<rparr>)
     = (\<lparr>slots = [None,
                   Some \<lparr>block_id = ''n'', block_type = Todo,
                         content = TodoContent [] False\<rparr>],
          sparse_activeBlockId = Some ''a'', sparse_targetIndex = 2\<rparr>, True)
   \<and> slot_ids
       \<lparr>slots = [None,
                 Some \<lparr>block_id = ''n'', block_type = Todo, content = TodoContent [] False\<rparr>],
        sparse_activeBlockId = Some ''a'', sparse_targetIndex = 2\<rparr>
     = [''n'']"
  by code_simp

text \<open>
  Claim C2. When the block sequence has exactly one element, \<open>deleteBlock\<close> at any
  position returns without a change: the sequence, the active identifier and the
  rest of the state are as before. So does the Backspace key event of the one
  rendered block, the other caller of a deletion.
\<close>

theorem deleteBlock_last_block_noop:
  assumes "length (blocks s) = 1"
  shows "deleteBlock index s = Inr s
         \<and> (blockId \<in> set (ids s) \<longrightarrow>
              handleBlockKeyDown uuid Backspace textContentEmpty blockId s = Inr s)"
proof -
  have "handleBlockKeyDown uuid Backspace textContentEmpty blockId s = Inr s"
    if "blockId \<in> set (ids s)"
  proof -
    let ?ci = "findIndex (\<lambda>block. block_id block = blockId) (blocks s)"
    from that have "\<exists>x \<in> set (blocks s). block_id x = blockId" by (simp add: ids_member)
    from findIndex_found [OF this] have ci: "0 \<le> ?ci" "?ci < int (length (blocks s))"
      by simp_all
    have "at_index (blocks s) ?ci = Some (blocks s ! nat ?ci)"
      by (rule at_index_Some [OF ci])
    then show ?thesis using assms
      by (simp add: handleBlockKeyDown_def Let_def Backspace_def)
  qed
  then show ?thesis using assms by (simp add: deleteBlock_def)
qed

theorem deleteBlock_last_block_noop_witness:
  "length (blocks (init_editor ''u1'' [])) = 1
   \<and> blocks (init_editor ''u1'' [])
       = [\<lparr>block_id = ''u1'', block_type = Text, content = TextContent []\<rparr>]
   \<and> deleteBlock 0 (init_editor ''u1'' []) = Inr (init_editor ''u1'' [])
   \<and> deleteBlock (- 1) (init_editor ''u1'' []) = Inr (init_editor ''u1'' [])
   \<and> deleteBlock 7 (init_editor ''u1'' []) = Inr (init_editor ''u1'' [])
   \<and> handleBlockKeyDown ''u2'' Backspace False ''u1'' (init_editor ''u1'' [])
       = Inr (init_editor ''u1'' [])"
  using deleteBlock_last_block_noop [of "init_editor ''u1'' []" 0 "''u1''" "''u2''" False]
    deleteBlock_last_block_noop [of "init_editor ''u1'' []" "- 1" "''u1''" "''u2''" False]
    deleteBlock_last_block_noop [of "init_editor ''u1'' []" 7 "''u1''" "''u2''" False]
  by (simp add: init_editor_def ids_def)

text \<open>
  Claim C10. For a requested type other than \<open>text\<close> and \<open>todo\<close> (\<open>heading\<close>, \<open>table\<close> or
  \<open>image\<close>), \<open>createBlock\<close> returns a block with the drawn identifier, type \<open>text\<close> and
  the empty string as content; \<open>addBlock\<close> inserts that text block, and
  \<open>handleSelectBlockType\<close> puts that text block at the menu's target.
\<close>

theorem createBlock_unsupported_type:
  assumes "ty \<noteq> Text" and "ty \<noteq> Todo"
  shows "createBlock uuid ty index = \<lparr>block_id = uuid, block_type = Text, content = TextContent []\<rparr>
    \<and> blocks (addBlock uuid ty index s)
        = splice (blocks s) (index + 1) 0 [\<lparr>block_id = uuid, block_type = Text, content = TextContent []\<rparr>]
    \<and> (0 \<le> targetIndex s \<and> targetIndex s < int (length (blocks s)) \<longrightarrow>
        handleSelectBlockType uuid ty s
          = Inr (s\<lparr>blocks := (blocks s)[nat (targetIndex s) :=
                     \<lparr>block_id = uuid, block_type = Text, content = TextContent []\<rparr>],
                   activeBlockId := Some uuid\<rparr>))"
proof -
  have c: "\<And>i. createBlock uuid ty i = \<lparr>block_id = uuid, block_type = Text, content = TextContent []\<rparr>"
    using assms by (cases ty) (simp_all add: createBlock_def)
  have "nat (targetIndex s) < length (blocks s)"
    if "0 \<le> targetIndex s" "targetIndex s < int (length (blocks s))"
    using that by linarith
  then show ?thesis
    by (simp add: c addBlock_def handleSelectBlockType_def Let_def)
qed

theorem createBlock_unsupported_type_witness:
  "createBlock ''u'' Heading 0 = \<lparr>block_id = ''u'', block_type = Text, content = TextContent []\<rparr>
   \<and> createBlock ''u'' Table 0 = \<lparr>block_id = ''u'', block_type = Text, content = TextContent []\<rparr>
   \<and> createBlock ''u'' Image 0 = \<lparr>block_id = ''u'', block_type = Text, content = TextContent []\<rparr>
   \<and> handleSelectBlockType ''u'' Heading ((init_editor ''a'' [])\<lparr>targetIndex := 0\<rparr>)
       = Inr \<lparr>blocks = [\<lparr>block_id = ''u'', block_type = Text, content = TextContent []\<rparr>],
              activeBlockId = Some ''u'', targetIndex = 0\<rparr>"
  using createBlock_unsupported_type [of Heading "''u''" 0 "(init_editor ''a'' [])\<lparr>targetIndex := 0\<rparr>"]
    createBlock_unsupported_type [of Table "''u''" 0 "init_editor ''a'' []"]
    createBlock_unsupported_type [of Image "''u''" 0 "init_editor ''a'' []"]
  by (simp add: init_editor_def)

section \<open>Properties of the writes issued by the pages\<close>

lemma page_step_inv: "page_inv p \<Longrightarrow> page_inv (page_step noteId ev p)"
proof (cases ev)
  case (NoteFetched uuid d)
  then show "page_inv p \<Longrightarrow> page_inv (page_step noteId ev p)"
    by (cases "note_content d")
       (simp_all add: page_inv_def convert_content_def is_block_array_def)
next
  case (BlocksChange bs)
  then show "page_inv p \<Longrightarrow> page_inv (page_step noteId ev p)"
    by (simp add: page_inv_def debouncedSave_def is_block_array_def Let_def)
next
  case (TitleChange t)
  then show "page_inv p \<Longrightarrow> page_inv (page_step noteId ev p)"
    by (simp add: page_inv_def)
next
  case TitleSave
  then show "page_inv p \<Longrightarrow> page_inv (page_step noteId ev p)"
    by (simp add: page_inv_def debouncedSave_def)
next
  case (TimeoutFires now)
  then show "page_inv p \<Longrightarrow> page_inv (page_step noteId ev p)"
    by (cases "saveTimeout p") (simp_all add: page_inv_def saveNote_def)
qed

lemma page_run_inv: "page_inv p \<Longrightarrow> page_inv (page_run noteId evs p)"
  by (induction evs arbitrary: p) (simp_all add: page_step_inv)

lemma init_page_inv: "page_inv init_page"
  by (simp add: page_inv_def init_page_def is_block_array_def)




section \<open>Properties of the notes API\<close>

lemma map_of_without_id:
  "map_of (filter (\<lambda>(k, v). k \<noteq> x) fs) f = (if f = x then None else map_of fs f)"
  by (induction fs) auto

lemma PUT_object:
  "PUT drv other storage_up notes (Some (JObject props)) =
     (case map_of props ''_id'' of
        None \<Rightarrow> (\<lparr>status = 400, payload = Error ''Note ID is required''\<rparr>, notes)
      | Some i \<Rightarrow>
          if \<not> truthy i then (\<lparr>status = 400, payload = Error ''Note ID is required''\<rparr>, notes)
          else if \<not> storage_up then
            (\<lparr>status = 500, payload = Error ''Failed to update note''\<rparr>, notes)
          else
            (case newObjectId drv i of
               None \<Rightarrow> (\<lparr>status = 500, payload = Error ''Failed to update note''\<rparr>, notes)
             | Some oid \<Rightarrow>
                 (case updateOne_set other (notes oid)
                         (filter (\<lambda>(k, v). k \<noteq> ''_id'') props) of
                    Rejected \<Rightarrow>
                      (\<lparr>status = 500, payload = Error ''Failed to update note''\<rparr>, notes)
                  | Unmatched \<Rightarrow> (\<lparr>status = 404, payload = Error ''Note not found''\<rparr>, notes)
                  | Modified doc' \<Rightarrow>
                      (\<lparr>status = 200, payload = Success\<rparr>, notes(oid \<mapsto> doc')))))"
  by (simp add: PUT_def Let_def)

lemma PUT_not_object:
  assumes "\<And>props. body \<noteq> Some (JObject props)"
  shows "status (fst (PUT drv other storage_up notes body)) \<noteq> 200"
proof (cases body)
  case None
  then show ?thesis by (simp add: PUT_def)
next
  case (Some b)
  show ?thesis
  proof (cases b)
    case (JObject fs)
    with Some assms show ?thesis by blast
  qed (simp_all add: Some PUT_def Let_def)
qed

lemma updateOne_set_top_level:
  assumes "updateData \<noteq> []" and "list_all (\<lambda>(k, v). top_level_name k) updateData"
  shows "updateOne_set other matched updateData =
           (case matched of None \<Rightarrow> Unmatched | Some doc \<Rightarrow> Modified (doc ++ map_of updateData))"
  using assms by (simp add: updateOne_set_def)

text \<open>
  Claim C8, as stated, fails. The stored note has the fields \<open>title\<close> and \<open>content\<close>; a
  PUT whose body supplies only \<open>_id\<close> and \<open>title\<close> succeeds, and the stored \<open>content\<close>,
  absent from the body, survives.
\<close>

theorem PUT_keeps_absent_field_counterexample:
  "fst (PUT hex_driver rejects_other True
          [''0123456789abcdef01234567'' \<mapsto>
             [''title'' \<mapsto> JString ''old'', ''content'' \<mapsto> JString ''kept'']]
          (Some (JObject [(''_id'', JString ''0123456789abcdef01234567''),
                          (''title'', JString ''new'')])))
     = \<lparr>status = 200, payload = Success\<rparr>
   \<and> map_of [(''_id'', JString ''0123456789abcdef01234567''), (''title'', JString ''new'')]
        ''content'' = None
   \<and> stored_field
        (snd (PUT hex_driver rejects_other True
                [''0123456789abcdef01234567'' \<mapsto>
                   [''title'' \<mapsto> JString ''old'', ''content'' \<mapsto> JString ''kept'']]
                (Some (JObject [(''_id'', JString ''0123456789abcdef01234567''),
                                (''title'', JString ''new'')]))))
        ''0123456789abcdef01234567'' ''content''
     = Some (JString ''kept'')"
  by (simp add: PUT_object hex_driver_def is_hex_def stored_field_def updateOne_set_def
      top_level_name_def)

text \<open>
  Claim C8, amended. A successful PUT (status 200) has an object as body whose \<open>_id\<close>
  gives the identifier of the one document that may change; every other document is
  unchanged. When the body supplies at least one field besides \<open>_id\<close> and all the
  supplied names are top-level names (not empty, no \<open>.\<close>, no leading \<open>$\<close>), the
  identifier names a stored document, and afterwards every supplied field other than
  \<open>_id\<close> has the supplied value in it and every field absent from the body has the
  value it had before: an update of the supplied fields, not a replacement of the
  document.
\<close>

theorem PUT_sets_supplied_fields:
  assumes put: "PUT drv other storage_up notes body = (r, notes')" and ok: "status r = 200"
  shows "\<exists>props i oid.
           body = Some (JObject props) \<and> map_of props ''_id'' = Some i
           \<and> newObjectId drv i = Some oid
           \<and> (\<forall>k. k \<noteq> oid \<longrightarrow> notes' k = notes k)
           \<and> (filter (\<lambda>(k, v). k \<noteq> ''_id'') props \<noteq> []
                \<and> list_all (\<lambda>(k, v). top_level_name k) props
              \<longrightarrow> (\<exists>doc. notes oid = Some doc
                     \<and> (\<forall>f v. f \<noteq> ''_id'' \<longrightarrow> map_of props f = Some v
                            \<longrightarrow> stored_field notes' oid f = Some v)
                     \<and> (\<forall>f. f \<noteq> ''_id'' \<longrightarrow> map_of props f = None
                            \<longrightarrow> stored_field notes' oid f = doc f)))"
proof -
  have "\<exists>props. body = Some (JObject props)"
    using PUT_not_object put ok by (metis fst_conv)
  then obtain props where b: "body = Some (JObject props)" by blast
  let ?upd = "filter (\<lambda>(k, v). k \<noteq> ''_id'') props"
  note p = put [unfolded b PUT_object]
  from p ok obtain i where i: "map_of props ''_id'' = Some i"
    by (cases "map_of props ''_id''") auto
  from p ok i have t: "truthy i" "storage_up"
    by (auto split: if_splits)
  from p ok i t obtain oid where oid: "newObjectId drv i = Some oid"
    by (cases "newObjectId drv i") auto
  from p ok i t oid obtain doc' where
    m: "updateOne_set other (notes oid) ?upd = Modified doc'"
    by (cases "updateOne_set other (notes oid) ?upd") auto
  from p i t oid m have n': "notes' = notes(oid \<mapsto> doc')" by simp
  have others: "\<forall>k. k \<noteq> oid \<longrightarrow> notes' k = notes k" by (simp add: n')
  have top: "\<exists>doc. notes oid = Some doc
                \<and> (\<forall>f v. f \<noteq> ''_id'' \<longrightarrow> map_of props f = Some v
                       \<longrightarrow> stored_field notes' oid f = Some v)
                \<and> (\<forall>f. f \<noteq> ''_id'' \<longrightarrow> map_of props f = None
                       \<longrightarrow> stored_field notes' oid f = doc f)"
    if ne: "?upd \<noteq> []" and tl: "list_all (\<lambda>(k, v). top_level_name k) props"
  proof -
    have "list_all (\<lambda>(k, v). top_level_name k) ?upd"
      using tl by (simp add: list_all_iff)
    from updateOne_set_top_level [OF ne this, of other "notes oid"] m
    obtain doc where doc: "notes oid = Some doc" and d': "doc' = doc ++ map_of ?upd"
      by (cases "notes oid") auto
    have "\<forall>f v. f \<noteq> ''_id'' \<longrightarrow> map_of props f = Some v
            \<longrightarrow> stored_field notes' oid f = Some v"
      by (simp add: n' d' stored_field_def map_add_def map_of_without_id)
    moreover have "\<forall>f. f \<noteq> ''_id'' \<longrightarrow> map_of props f = None
            \<longrightarrow> stored_field notes' oid f = doc f"
      by (simp add: n' d' stored_field_def map_add_def map_of_without_id)
    ultimately show ?thesis using doc by simp
  qed
  show ?thesis
    using b i oid others top by (intro exI [of _ props] exI [of _ i] exI [of _ oid]) simp
qed

theorem PUT_sets_supplied_fields_witness:
  "status (fst (PUT hex_driver rejects_other True
          [''0123456789abcdef01234567'' \<mapsto>
             [''title'' \<mapsto> JString ''old'', ''content'' \<mapsto> JString ''kept'']]
          (Some (JObject [(''_id'', JString ''0123456789abcdef01234567''),
                          (''title'', JString ''new'')])))) = 200
   \<and> stored_field
        (snd (PUT hex_driver rejects_other True
                [''0123456789abcdef01234567'' \<mapsto>
                   [''title'' \<mapsto> JString ''old'', ''content'' \<mapsto> JString ''kept'']]
                (Some (JObject [(''_id'', JString ''0123456789abcdef01234567''),
                                (''title'', JString ''new'')]))))
        ''0123456789abcdef01234567'' ''title'' = Some (JString ''new'')
   \<and> stored_field
        (snd (PUT hex_driver rejects_other True
                [''0123456789abcdef01234567'' \<mapsto>
                   [''title'' \<mapsto> JString ''old'', ''content'' \<mapsto> JString ''kept'']]
                (Some (JObject [(''_id'', JString ''0123456789abcdef01234567''),
                                (''title'', JString ''new'')]))))
        ''0123456789abcdef01234567'' ''content'' = Some (JString ''kept'')"
proof -
  define k where "k = ''0123456789abcdef01234567''"
  define coll :: "string collection" where
    "coll = [k \<mapsto> [''title'' \<mapsto> JString ''old'', ''content'' \<mapsto> JString ''kept'']]"
  define ps where "ps = [(''_id'', JString k), (''title'', JString ''new'')]"
  define res where "res = PUT hex_driver rejects_other True coll (Some (JObject ps))"
  have nk: "newObjectId hex_driver (JString k) = Some k"
    by (simp add: hex_driver_def is_hex_def k_def)
  have idf: "map_of ps ''_id'' = Some (JString k)" by (simp add: ps_def)
  have tk: "truthy (JString k)" by (simp add: k_def)
  have ck: "coll k = Some [''title'' \<mapsto> JString ''old'', ''content'' \<mapsto> JString ''kept'']"
    by (simp add: coll_def)
  have upd: "filter (\<lambda>(k, v). k \<noteq> ''_id'') ps = [(''title'', JString ''new'')]"
    by (simp add: ps_def)
  have ne: "filter (\<lambda>(k, v). k \<noteq> ''_id'') ps \<noteq> []" by (simp add: upd)
  have tl: "list_all (\<lambda>(k, v). top_level_name k) ps"
    by (simp add: ps_def top_level_name_def)
  have us: "updateOne_set rejects_other (coll k) [(''title'', JString ''new'')]
              = Modified ([''title'' \<mapsto> JString ''old'', ''content'' \<mapsto> JString ''kept'']
                            ++ map_of [(''title'', JString ''new'')])"
    by (simp add: updateOne_set_def top_level_name_def ck)
  have ok: "status (fst res) = 200"
    unfolding res_def PUT_object
    by (simp only: idf option.case tk nk upd us update_outcome.case) simp
  have p: "PUT hex_driver rejects_other True coll (Some (JObject ps)) = (fst res, snd res)"
    by (simp add: res_def)
  from PUT_sets_supplied_fields [OF p ok] obtain props i oid where
    all: "Some (JObject ps) = Some (JObject props) \<and> map_of props ''_id'' = Some i
           \<and> newObjectId hex_driver i = Some oid
           \<and> (\<forall>k. k \<noteq> oid \<longrightarrow> snd res k = coll k)
           \<and> (filter (\<lambda>(k, v). k \<noteq> ''_id'') props \<noteq> []
                \<and> list_all (\<lambda>(k, v). top_level_name k) props
              \<longrightarrow> (\<exists>doc. coll oid = Some doc
                     \<and> (\<forall>f v. f \<noteq> ''_id'' \<longrightarrow> map_of props f = Some v
                            \<longrightarrow> stored_field (snd res) oid f = Some v)
                     \<and> (\<forall>f. f \<noteq> ''_id'' \<longrightarrow> map_of props f = None
                            \<longrightarrow> stored_field (snd res) oid f = doc f)))"
    by (elim exE) (rule that)
  from all have "Some (JObject ps) = Some (JObject props)" by (rule conjunct1)
  then have props: "props = ps" by simp
  from all have i: "map_of props ''_id'' = Some i" by (elim conjE)
  from all have oid: "newObjectId hex_driver i = Some oid" by (elim conjE)
  from i idf have "i = JString k" by (simp add: props)
  with oid nk have o: "oid = k" by simp
  from all have imp: "filter (\<lambda>(k, v). k \<noteq> ''_id'') props \<noteq> []
                \<and> list_all (\<lambda>(k, v). top_level_name k) props
              \<longrightarrow> (\<exists>doc. coll oid = Some doc
                     \<and> (\<forall>f v. f \<noteq> ''_id'' \<longrightarrow> map_of props f = Some v
                            \<longrightarrow> stored_field (snd res) oid f = Some v)
                     \<and> (\<forall>f. f \<noteq> ''_id'' \<longrightarrow> map_of props f = None
                            \<longrightarrow> stored_field (snd res) oid f = doc f))"
    by (elim conjE)
  with ne tl obtain doc where doc: "coll oid = Some doc"
    and sup: "\<forall>f v. f \<noteq> ''_id'' \<longrightarrow> map_of props f = Some v
                \<longrightarrow> stored_field (snd res) oid f = Some v"
    and keep: "\<forall>f. f \<noteq> ''_id'' \<longrightarrow> map_of props f = None
                \<longrightarrow> stored_field (snd res) oid f = doc f"
    unfolding props by (elim impE conjE exE) (rule conjI, assumption+)
  from doc ck have d: "doc = [''title'' \<mapsto> JString ''old'', ''content'' \<mapsto> JString ''kept'']"
    by (simp add: o)
  have "map_of props ''title'' = Some (JString ''new'')" by (simp add: props ps_def)
  with sup have t: "stored_field (snd res) k ''title'' = Some (JString ''new'')"
    by (simp add: o)
  have "map_of props ''content'' = None" by (simp add: props ps_def)
  with keep have c: "stored_field (snd res) k ''content'' = Some (JString ''kept'')"
    by (simp add: o d)
  from ok t c show ?thesis
    unfolding res_def coll_def ps_def k_def by (intro conjI)
qed

text \<open>
  Claim C9. For every identifier that the driver's \<open>ObjectId.isValid\<close> rejects,
  \<open>GET /api/notes/{id}\<close> answers with status 400 and the message \<open>Invalid note ID\<close>,
  and makes no storage call: it neither connects nor looks a document up.
\<close>

theorem GET_note_invalid_id:
  assumes "\<not> isValid drv id_param"
  shows "GET_note drv storage_up notes id_param
         = (\<lparr>status = 400, payload = Error ''Invalid note ID''\<rparr>, [])"
  using assms by (simp add: GET_note_def)

theorem GET_note_invalid_id_witness:
  "\<not> isValid hex_driver ''not-an-object-id''
   \<and> GET_note hex_driver True Map.empty ''not-an-object-id''
       = (\<lparr>status = 400, payload = Error ''Invalid note ID''\<rparr>, [])"
  using GET_note_invalid_id [of hex_driver "''not-an-object-id''" True Map.empty]
  by (simp add: hex_driver_def)

end
